theory Spec2Isabelle
  imports Main "HOL-Library.Word"
begin

section \<open>Values, exceptions and callables\<close>

text \<open>
  The model server of \<^verbatim>\<open>chitra/serve/model_server.py\<close> moves dynamically typed
  Python values between a request, the processing functions and the model.  A Python
  string is the list of its Unicode code points; \<open>lit\<close> turns an ASCII literal into
  such a list.
\<close>

type_synonym pystr = "nat list"

definition lit :: "string \<Rightarrow> pystr" where
  "lit s = map of_char s"

text \<open>
  The values that the module itself builds are strings, byte strings and tuples;
  \<open>PyNone\<close>, \<open>PyInt\<close> and \<open>PyObject\<close> stand for keyword configuration such as
  \<^verbatim>\<open>docs_url=None\<close> or \<^verbatim>\<open>image_size=(224, 224)\<close> and for whatever a model returns.
\<close>

datatype pyval =
    PyNone
  | PyInt int
  | PyStr pystr
  | PyBytes "8 word list"
  | PyTuple "pyval list"
  | PyObject nat

text \<open>
  Every \<^verbatim>\<open>raise\<close> is a value: \<open>UserWarning\<close> is the exception of
  \<^verbatim>\<open>set_default_processor\<close>, \<open>TypeError\<close> and \<open>AttributeError\<close> are what the
  interpreter raises when \<^verbatim>\<open>None\<close> is called or dereferenced or when a call binds a
  parameter twice, and \<open>Raised\<close> is any exception that a user-supplied callable raises.
\<close>

datatype error =
    UserWarning pystr
  | TypeError pystr
  | AttributeError pystr
  | Raised pystr

type_synonym kwargs = "pystr \<rightharpoonup> pyval"

text \<open>
  An object passed as a processing function has a truth value and a behaviour when called
  with keyword arguments and one positional argument.  A function object and a
  \<^verbatim>\<open>functools.partial\<close> object are true; an object of a class that defines
  \<^verbatim>\<open>__bool__\<close> or \<^verbatim>\<open>__len__\<close> can be false and callable all the same.  Taking the
  truth value is assumed to return.  The model is only ever called as
  \<^verbatim>\<open>self.model(x)\<close> and never tested.
\<close>

datatype callable = Callable (truth: bool) (body: "kwargs \<Rightarrow> pyval \<Rightarrow> error + pyval")

type_synonym model_fn = "pyval \<Rightarrow> error + pyval"

text \<open>An ordinary function.\<close>

definition plain_function :: "(kwargs \<Rightarrow> pyval \<Rightarrow> error + pyval) \<Rightarrow> callable" where
  "plain_function f = Callable True f"

text \<open>Sequencing of two steps either of which may raise.\<close>

definition seq :: "error + 'a \<Rightarrow> ('a \<Rightarrow> error + 'b) \<Rightarrow> error + 'b" where
  "seq r k = (case r of Inl e \<Rightarrow> Inl e | Inr x \<Rightarrow> k x)"

text \<open>Truth of an optional function reference: \<^verbatim>\<open>None\<close> is false.\<close>

definition truthy :: "callable option \<Rightarrow> bool" where
  "truthy v = (case v of None \<Rightarrow> False | Some f \<Rightarrow> truth f)"

text \<open>\<^verbatim>\<open>a or b\<close> evaluates to \<open>a\<close> when \<open>a\<close> is true and to \<open>b\<close> otherwise.\<close>

definition py_or :: "callable option \<Rightarrow> callable option \<Rightarrow> callable option" where
  "py_or a b = (if truthy a then a else b)"

text \<open>Calling a value that may be \<^verbatim>\<open>None\<close>.\<close>

definition call :: "callable option \<Rightarrow> kwargs \<Rightarrow> pyval \<Rightarrow> error + pyval" where
  "call f kw x =
     (case f of
        None \<Rightarrow> Inl (TypeError (lit ''NoneType object is not callable''))
      | Some g \<Rightarrow> body g kw x)"

text \<open>
  \<^verbatim>\<open>functools.partial(f, **kw)\<close>: the first argument must be callable; the result is
  a true object, and the keywords given at a call override the bound ones.
\<close>

definition partial :: "callable option \<Rightarrow> kwargs \<Rightarrow> error + callable" where
  "partial f kw =
     (case f of
        None \<Rightarrow> Inl (TypeError (lit ''the first argument must be callable''))
      | Some g \<Rightarrow> Inr (Callable True (\<lambda>kw' x. body g (kw ++ kw') x)))"

text \<open>\<^verbatim>\<open>kwargs.get(key, default)\<close>.\<close>

definition kwargs_get :: "kwargs \<Rightarrow> pystr \<Rightarrow> pyval \<Rightarrow> pyval" where
  "kwargs_get kw k d = (case kw k of None \<Rightarrow> d | Some v \<Rightarrow> v)"

section \<open>Strings\<close>

text \<open>
  \<^verbatim>\<open>str.upper\<close> replaces every code point by its full uppercase mapping, which may be
  several code points (\<^verbatim>\<open>U+00DF\<close> becomes \<^verbatim>\<open>SS\<close>).  On the ASCII range the mapping
  moves the letters \<open>a\<close> to \<open>z\<close> to \<open>A\<close> to \<open>Z\<close> and keeps every other code point.
  Outside ASCII it is the table of the interpreter's Unicode database, which is not part of
  the sources: the table is the parameter \<open>U\<close> of everything that uppercases.
\<close>

definition upper_ascii :: "nat \<Rightarrow> nat" where
  "upper_ascii c = (if 97 \<le> c \<and> c \<le> 122 then c - 32 else c)"

definition upper_cp :: "(nat \<Rightarrow> pystr) \<Rightarrow> nat \<Rightarrow> pystr" where
  "upper_cp U c = (if c < 128 then [upper_ascii c] else U c)"

definition upper :: "(nat \<Rightarrow> pystr) \<Rightarrow> pystr \<Rightarrow> pystr" where
  "upper U s = concat (map (upper_cp U) s)"

text \<open>A string of ASCII code points only.\<close>

definition is_ascii :: "pystr \<Rightarrow> bool" where
  "is_ascii s = list_all (\<lambda>c. c < 128) s"

text \<open>
  \<^verbatim>\<open>repr\<close> of a string without quotes, backslashes or control characters, and of a
  list of such strings, as the f-string of the error message formats it.
\<close>

definition repr_str :: "pystr \<Rightarrow> pystr" where
  "repr_str s = 39 # s @ [39]"

fun join :: "pystr \<Rightarrow> pystr list \<Rightarrow> pystr" where
  "join sep [] = []"
| "join sep [x] = x"
| "join sep (x # y # ys) = x @ sep @ join sep (y # ys)"

definition repr_list :: "pystr list \<Rightarrow> pystr" where
  "repr_list xs = lit ''['' @ join (lit '', '') (map repr_str xs) @ lit '']''"

section \<open>Task tags\<close>

definition IMAGE_CLF :: pystr where
  "IMAGE_CLF = lit ''IMAGE-CLASSIFICATION''"

definition OBJECT_DETECTION :: pystr where
  "OBJECT_DETECTION = lit ''OBJECT-DETECTION''"

definition TXT_CLF :: pystr where
  "TXT_CLF = lit ''TEXT-CLASSIFICATION''"

definition QNA :: pystr where
  "QNA = lit ''QUESTION-ANS''"

text \<open>The dictionary \<^verbatim>\<open>API_TYPES\<close>, in insertion order.\<close>

definition API_TYPES :: "(pystr \<times> pystr list) list" where
  "API_TYPES =
     [(lit ''VISION'', [IMAGE_CLF, OBJECT_DETECTION]), (lit ''NLP'', [TXT_CLF, QNA])]"

definition get_available_api_types :: "pystr list" where
  "get_available_api_types = concat (map snd API_TYPES)"

text \<open>
  \<^verbatim>\<open>x in API_TYPES.get(key)\<close>: membership in the tuple stored under the key;
  \<^verbatim>\<open>get\<close> yields \<^verbatim>\<open>None\<close> for a missing key, which is not iterable.
\<close>

definition in_api_types :: "pystr \<Rightarrow> pystr \<Rightarrow> error + bool" where
  "in_api_types x key =
     (case map_of API_TYPES key of
        None \<Rightarrow> Inl (TypeError (lit ''argument of type NoneType is not iterable''))
      | Some tags \<Rightarrow> Inr (x \<in> set tags))"

section \<open>Processors\<close>

text \<open>
  Modelled from the spec: \<^verbatim>\<open>data_processing.py\<close> is not part of the sources.  A
  \<^verbatim>\<open>DataProcessor\<close> holds two optional function references; its methods
  \<^verbatim>\<open>preprocess\<close> and \<^verbatim>\<open>postprocess\<close> apply the stored function to their argument.
\<close>

record DataProcessor =
  preprocess_fn :: "callable option"
  postprocess_fn :: "callable option"

definition preprocess :: "DataProcessor \<Rightarrow> pyval \<Rightarrow> error + pyval" where
  "preprocess dp x = call (preprocess_fn dp) Map.empty x"

definition postprocess :: "DataProcessor \<Rightarrow> pyval \<Rightarrow> error + pyval" where
  "postprocess dp x = call (postprocess_fn dp) Map.empty x"

text \<open>
  Modelled from the spec: \<^verbatim>\<open>DefaultProcessor.vision\<close> and \<^verbatim>\<open>DefaultProcessor.nlp\<close>
  are the two category defaults, each a processor object with both functions set.  They are
  class attributes, so every server that resolves a default refers to the same object: the
  pair of objects is program state, read and written through references.
\<close>

record default_fns =
  default_pre :: callable
  default_post :: callable

record DefaultProcessor =
  vision :: default_fns
  nlp :: default_fns

text \<open>
  What \<^verbatim>\<open>self.data_processor\<close> refers to: an object made for this server by
  \<^verbatim>\<open>set_data_processor\<close>, or one of the two shared defaults.
\<close>

datatype processor_ref =
    Own DataProcessor
  | Shared_vision
  | Shared_nlp

fun deref :: "DefaultProcessor \<Rightarrow> processor_ref \<Rightarrow> DataProcessor" where
  "deref D (Own dp) = dp"
| "deref D Shared_vision =
     \<lparr>preprocess_fn = Some (default_pre (vision D)),
      postprocess_fn = Some (default_post (vision D))\<rparr>"
| "deref D Shared_nlp =
     \<lparr>preprocess_fn = Some (default_pre (nlp D)),
      postprocess_fn = Some (default_post (nlp D))\<rparr>"

text \<open>The attribute assignments \<^verbatim>\<open>data_processor.preprocess_fn = f\<close> and
  \<^verbatim>\<open>data_processor.postprocess_fn = f\<close> through a reference.\<close>

fun assign_preprocess_fn ::
  "processor_ref \<Rightarrow> callable \<Rightarrow> DefaultProcessor \<Rightarrow> processor_ref \<times> DefaultProcessor" where
  "assign_preprocess_fn (Own dp) f D = (Own (dp\<lparr>preprocess_fn := Some f\<rparr>), D)"
| "assign_preprocess_fn Shared_vision f D =
     (Shared_vision, D\<lparr>vision := (vision D)\<lparr>default_pre := f\<rparr>\<rparr>)"
| "assign_preprocess_fn Shared_nlp f D =
     (Shared_nlp, D\<lparr>nlp := (nlp D)\<lparr>default_pre := f\<rparr>\<rparr>)"

fun assign_postprocess_fn ::
  "processor_ref \<Rightarrow> callable \<Rightarrow> DefaultProcessor \<Rightarrow> processor_ref \<times> DefaultProcessor" where
  "assign_postprocess_fn (Own dp) f D = (Own (dp\<lparr>postprocess_fn := Some f\<rparr>), D)"
| "assign_postprocess_fn Shared_vision f D =
     (Shared_vision, D\<lparr>vision := (vision D)\<lparr>default_post := f\<rparr>\<rparr>)"
| "assign_postprocess_fn Shared_nlp f D =
     (Shared_nlp, D\<lparr>nlp := (nlp D)\<lparr>default_post := f\<rparr>\<rparr>)"

section \<open>The web application\<close>

text \<open>
  The bound methods that \<^verbatim>\<open>setup_api\<close> hands to the framework, and the framework's
  application object as far as this module touches it: the metadata given to the constructor
  and the routes added through \<^verbatim>\<open>app.post(path)(handler)\<close>.
\<close>

datatype handler =
    Predict_image
  | Predict_text
  | Predict_question_answer

record route =
  http_method :: pystr
  route_path :: pystr
  endpoint :: handler

record FastAPI =
  title :: pyval
  description :: pyval
  docs_url :: pyval
  routes :: "route list"

definition new_FastAPI :: "pyval \<Rightarrow> pyval \<Rightarrow> pyval \<Rightarrow> FastAPI" where
  "new_FastAPI t d u = \<lparr>title = t, description = d, docs_url = u, routes = []\<rparr>"

definition app_post :: "FastAPI \<Rightarrow> pystr \<Rightarrow> handler \<Rightarrow> FastAPI" where
  "app_post a p h =
     a\<lparr>routes := routes a @ [\<lparr>http_method = lit ''POST'', route_path = p, endpoint = h\<rparr>]\<rparr>"

definition default_title :: pystr where
  "default_title = lit ''Chitra Model Server '' @ [0x1F525]"

definition default_description :: pystr where
  "default_description =
     lit ''<a href='' @ [34] @ lit ''https://chitra.readthedocs.io/en/latest'' @ [34]
     @ lit ''>Goto Chitra Docs</a> '' @ [0x1F517]"

section \<open>ModelServer\<close>

record ModelServer =
  api_type :: pystr
  model :: model_fn
  data_processor :: "processor_ref option"

definition set_data_processor :: "callable option \<Rightarrow> callable option \<Rightarrow> DataProcessor option" where
  "set_data_processor pre post =
     (if py_or pre post = None then None
      else Some \<lparr>preprocess_fn = pre, postprocess_fn = post\<rparr>)"

definition ModelServer_init ::
  "(nat \<Rightarrow> pystr) \<Rightarrow> pystr \<Rightarrow> model_fn \<Rightarrow> callable option \<Rightarrow> callable option \<Rightarrow> kwargs
     \<Rightarrow> ModelServer" where
  "ModelServer_init U t m pre post kw =
     \<lparr>api_type = upper U t,
      model = m,
      data_processor = map_option Own (set_data_processor pre post)\<rparr>"

definition not_implemented_message :: "pystr \<Rightarrow> pystr" where
  "not_implemented_message t =
     t @ lit '' is not implemented! Available types are - ''
       @ repr_list get_available_api_types"

text \<open>
  \<^verbatim>\<open>set_default_processor\<close> stores the reference to the shared default in the server
  and returns it, or raises.
\<close>

definition set_default_processor ::
  "'a ModelServer_scheme \<Rightarrow> error + ('a ModelServer_scheme \<times> processor_ref)" where
  "set_default_processor self =
     seq (in_api_types (api_type self) (lit ''VISION'')) (\<lambda>is_vision.
       if is_vision then Inr (self\<lparr>data_processor := Some Shared_vision\<rparr>, Shared_vision)
       else
         seq (in_api_types (api_type self) (lit ''NLP'')) (\<lambda>is_nlp.
           if is_nlp then Inr (self\<lparr>data_processor := Some Shared_nlp\<rparr>, Shared_nlp)
           else Inl (UserWarning (not_implemented_message (api_type self)))))"

section \<open>API\<close>

record API = ModelServer +
  app :: FastAPI

text \<open>Modelled from the spec: \<^verbatim>\<open>schema.py\<close> is not part of the sources.  The request
  bodies are \<^verbatim>\<open>{query}\<close> and \<^verbatim>\<open>{query, question}\<close>.\<close>

record Query =
  query :: pystr

record QnARequest = Query +
  question :: pystr

text \<open>The processor object behind \<^verbatim>\<open>self.data_processor\<close> in the current state.\<close>

definition the_data_processor ::
  "'a ModelServer_scheme \<Rightarrow> DefaultProcessor \<Rightarrow> error + DataProcessor" where
  "the_data_processor self D =
     (case data_processor self of
        None \<Rightarrow> Inl (AttributeError (lit ''NoneType object has no attribute''))
      | Some r \<Rightarrow> Inr (deref D r))"

definition predict_image :: "'a API_scheme \<Rightarrow> DefaultProcessor \<Rightarrow> 8 word list \<Rightarrow> error + pyval" where
  "predict_image self D file =
     seq (the_data_processor self D) (\<lambda>dp.
       let pre = preprocess_fn dp; post = postprocess_fn dp
       in seq (call pre Map.empty (PyBytes file)) (\<lambda>x.
            seq (model self x) (\<lambda>x.
              call post Map.empty x)))"

definition predict_text :: "'a API_scheme \<Rightarrow> DefaultProcessor \<Rightarrow> Query \<Rightarrow> error + pyval" where
  "predict_text self D data =
     seq (the_data_processor self D) (\<lambda>dp.
       seq (if truthy (preprocess_fn dp) then preprocess dp (PyStr (query data))
            else Inr (PyStr (query data))) (\<lambda>x.
         seq (model self x) (\<lambda>x.
           if truthy (postprocess_fn dp) then postprocess dp x else Inr x)))"

definition predict_question_answer ::
  "'a API_scheme \<Rightarrow> DefaultProcessor \<Rightarrow> QnARequest \<Rightarrow> error + pyval" where
  "predict_question_answer self D data =
     seq (the_data_processor self D) (\<lambda>dp.
       let x0 = PyTuple [PyStr (query data), PyStr (question data)]
       in seq (if truthy (preprocess_fn dp) then preprocess dp x0 else Inr x0) (\<lambda>x.
            seq (model self x) (\<lambda>x.
              if truthy (postprocess_fn dp) then postprocess dp x else Inr x)))"

text \<open>The second half of \<^verbatim>\<open>setup_api\<close>: the route chosen by the tag.\<close>

definition register_route :: "'a API_scheme \<Rightarrow> 'a API_scheme" where
  "register_route self =
     (if api_type self = IMAGE_CLF then
        self\<lparr>app := app_post (app self) (lit ''/api/predict-image'') Predict_image\<rparr>
      else if api_type self = TXT_CLF then
        self\<lparr>app := app_post (app self) (lit ''/api/predict-text'') Predict_text\<rparr>
      else if api_type self = QNA then
        self\<lparr>app := app_post (app self) (lit ''/api/QnA'') Predict_question_answer\<rparr>
      else self)"

text \<open>The first half of \<^verbatim>\<open>setup_api\<close>: when no processor is installed, the default
  is resolved and the keyword arguments are bound into both of its functions.\<close>

definition install_default ::
  "'a API_scheme \<Rightarrow> kwargs \<Rightarrow> DefaultProcessor \<Rightarrow> error + ('a API_scheme \<times> DefaultProcessor)" where
  "install_default self kw D =
     (if data_processor self = None then
        seq (set_default_processor self) (\<lambda>(self1, r0).
          seq (partial (preprocess_fn (deref D r0)) kw) (\<lambda>p.
            case assign_preprocess_fn r0 p D of (r1, D1) \<Rightarrow>
              seq (partial (postprocess_fn (deref D1 r1)) kw) (\<lambda>q.
                case assign_postprocess_fn r1 q D1 of (r2, D2) \<Rightarrow>
                  Inr (self1\<lparr>data_processor := Some r2\<rparr>, D2))))
      else Inr (self, D))"

definition setup_api ::
  "'a API_scheme \<Rightarrow> kwargs \<Rightarrow> DefaultProcessor \<Rightarrow> error + ('a API_scheme \<times> DefaultProcessor)" where
  "setup_api self kw D =
     seq (install_default self kw D) (\<lambda>(self1, D1). Inr (register_route self1, D1))"

text \<open>
  The body of \<^verbatim>\<open>API.__init__\<close>, once the call has bound its parameters: \<open>kw\<close> is
  the dictionary of the keywords that are left over.
\<close>

definition API_init ::
  "(nat \<Rightarrow> pystr) \<Rightarrow> pystr \<Rightarrow> model_fn \<Rightarrow> callable option \<Rightarrow> callable option \<Rightarrow> kwargs
     \<Rightarrow> DefaultProcessor \<Rightarrow> error + (API \<times> DefaultProcessor)" where
  "API_init U t m pre post kw D =
     (let base = ModelServer_init U t m pre post kw;
          u = kwargs_get kw (lit ''docs_url'') (PyStr (lit ''/docs''));
          ti = kwargs_get kw (lit ''title'') (PyStr default_title);
          de = kwargs_get kw (lit ''description'') (PyStr default_description);
          self = ModelServer.extend base (API.fields (new_FastAPI ti de u))
      in setup_api self kw D)"

text \<open>
  The call \<^verbatim>\<open>API(api_type, model, preprocess, postprocess, **kwargs)\<close> of line 153: four
  parameters are bound by position, so a keyword that names one of them, or \<^verbatim>\<open>self\<close>,
  binds a parameter twice and the call raises before the constructor runs.
\<close>

definition API_init_params :: "pystr list" where
  "API_init_params =
     [lit ''self'', lit ''api_type'', lit ''model'', lit ''preprocess_fn'',
      lit ''postprocess_fn'']"

definition bound_twice :: "kwargs \<Rightarrow> pystr list" where
  "bound_twice kw = filter (\<lambda>k. kw k \<noteq> None) API_init_params"

definition call_API ::
  "(nat \<Rightarrow> pystr) \<Rightarrow> pystr \<Rightarrow> model_fn \<Rightarrow> callable option \<Rightarrow> callable option \<Rightarrow> kwargs
     \<Rightarrow> DefaultProcessor \<Rightarrow> error + (API \<times> DefaultProcessor)" where
  "call_API U t m pre post kw D =
     (if bound_twice kw = [] then API_init U t m pre post kw D
      else Inl (TypeError (lit ''got multiple values for argument '' @ hd (bound_twice kw))))"

text \<open>\<^verbatim>\<open>run\<close> hands the application to the external server; the list records every
  application that was started.  In \<^verbatim>\<open>create_api\<close>, \<open>kw\<close> is the dictionary bound to
  \<^verbatim>\<open>**kwargs\<close>: the keywords of the caller that name no parameter of
  \<^verbatim>\<open>create_api\<close> itself.\<close>

definition run :: "'a API_scheme \<Rightarrow> FastAPI list \<Rightarrow> FastAPI list" where
  "run self started = started @ [app self]"

definition create_api ::
  "(nat \<Rightarrow> pystr) \<Rightarrow> model_fn \<Rightarrow> pystr \<Rightarrow> callable option \<Rightarrow> callable option \<Rightarrow> bool \<Rightarrow> kwargs
     \<Rightarrow> DefaultProcessor \<Rightarrow> FastAPI list \<Rightarrow> error + (API \<times> DefaultProcessor \<times> FastAPI list)" where
  "create_api U m t pre post run_flag kw D started =
     seq (call_API U t m pre post kw D) (\<lambda>(api, D1).
       Inr (api, D1, if run_flag then run api started else started))"

section \<open>Construction followed by requests\<close>

text \<open>
  A client of a route sees the composition of the constructor with the handler: the API
  is built, and the request runs in the state that the constructions so far have left.
\<close>

definition construct_then_predict_text ::
  "(nat \<Rightarrow> pystr) \<Rightarrow> pystr \<Rightarrow> model_fn \<Rightarrow> callable option \<Rightarrow> callable option \<Rightarrow> kwargs
     \<Rightarrow> DefaultProcessor \<Rightarrow> pystr \<Rightarrow> error + pyval" where
  "construct_then_predict_text U t m pre post kw D q =
     seq (API_init U t m pre post kw D) (\<lambda>(api, D1). predict_text api D1 \<lparr>query = q\<rparr>)"

text \<open>Two APIs are built without processors, then the first one serves an image.\<close>

definition construct_two_then_predict_image ::
  "(nat \<Rightarrow> pystr) \<Rightarrow> pystr \<Rightarrow> model_fn \<Rightarrow> kwargs \<Rightarrow> pystr \<Rightarrow> model_fn \<Rightarrow> kwargs
     \<Rightarrow> DefaultProcessor \<Rightarrow> 8 word list \<Rightarrow> error + pyval" where
  "construct_two_then_predict_image U t1 m1 kw1 t2 m2 kw2 D file =
     seq (API_init U t1 m1 None None kw1 D) (\<lambda>(api1, D1).
       seq (API_init U t2 m2 None None kw2 D1) (\<lambda>(api2, D2).
         predict_image api1 D2 file))"

text \<open>The route that \<^verbatim>\<open>app.post(p)(h)\<close> adds.\<close>

definition POST_route :: "pystr \<Rightarrow> handler \<Rightarrow> route" where
  "POST_route p h = \<lparr>http_method = lit ''POST'', route_path = p, endpoint = h\<rparr>"

section \<open>Example inputs\<close>

text \<open>
  A fragment of the uppercase table: sharp s, e with acute accent and dotless i; every
  other code point is kept.
\<close>

definition example_table :: "nat \<Rightarrow> pystr" where
  "example_table c =
     (if c = 223 then [83, 83] else if c = 233 then [201] else if c = 305 then [73] else [c])"

text \<open>Two tags with a code point outside ASCII: \<^verbatim>\<open>text-cla\<close>, sharp s,
  \<^verbatim>\<open>ification\<close>; and \<^verbatim>\<open>caf\<close>, e with acute accent.\<close>

definition sharp_s_tag :: pystr where
  "sharp_s_tag = lit ''text-cla'' @ [223] @ lit ''ification''"

definition cafe_tag :: pystr where
  "cafe_tag = lit ''caf'' @ [233]"

text \<open>
  Callables that show in their result who was called and with which \<^verbatim>\<open>image_shape\<close>
  keyword: a pair of defaults for each category, user functions and a model.  The last
  one is a callable object that is false, as one with \<^verbatim>\<open>__len__\<close> returning 0 is.
\<close>

definition tagged_body :: "string \<Rightarrow> kwargs \<Rightarrow> pyval \<Rightarrow> error + pyval" where
  "tagged_body name kw x =
     Inr (PyTuple [PyStr (lit name), kwargs_get kw (lit ''image_shape'') PyNone, x])"

definition tagged :: "string \<Rightarrow> callable" where
  "tagged name = plain_function (tagged_body name)"

definition falsy_tagged :: "string \<Rightarrow> callable" where
  "falsy_tagged name = Callable False (tagged_body name)"

definition example_defaults :: DefaultProcessor where
  "example_defaults =
     \<lparr>vision = \<lparr>default_pre = tagged ''vision_pre'', default_post = tagged ''vision_post''\<rparr>,
      nlp = \<lparr>default_pre = tagged ''nlp_pre'', default_post = tagged ''nlp_post''\<rparr>\<rparr>"

definition example_model :: model_fn where
  "example_model x = Inr (PyTuple [PyStr (lit ''model''), x])"

definition example_kwargs :: kwargs where
  "example_kwargs = [lit ''image_shape'' \<mapsto> PyTuple [PyInt 224, PyInt 224]]"

definition small_kwargs :: kwargs where
  "small_kwargs = [lit ''image_shape'' \<mapsto> PyTuple [PyInt 32, PyInt 32]]"

text \<open>A server as the constructor leaves it just before \<^verbatim>\<open>setup_api\<close>, with no
  processor supplied.\<close>

definition example_server :: "pystr \<Rightarrow> API" where
  "example_server t =
     \<lparr>api_type = t, model = example_model, data_processor = None,
      app = new_FastAPI (PyStr default_title) (PyStr default_description)
              (PyStr (lit ''/docs''))\<rparr>"

section \<open>Basic facts\<close>

lemmas tag_defs = IMAGE_CLF_def OBJECT_DETECTION_def TXT_CLF_def QNA_def lit_def

subsection \<open>Uppercasing\<close>

lemma upper_append: "upper U (xs @ ys) = upper U xs @ upper U ys"
  by (simp add: upper_def)

lemma upper_Cons: "upper U (c # s) = upper_cp U c @ upper U s"
  by (simp add: upper_def)

lemma upper_Nil: "upper U [] = []"
  by (simp add: upper_def)

lemma upper_ascii_less: "c < 128 \<Longrightarrow> upper_ascii c < 128"
  by (auto simp add: upper_ascii_def)

lemma upper_ascii_idem: "upper_ascii (upper_ascii c) = upper_ascii c"
  by (auto simp add: upper_ascii_def)

lemma upper_of_ascii: "is_ascii s \<Longrightarrow> upper U s = map upper_ascii s"
  by (induction s) (simp_all add: upper_Nil upper_Cons upper_cp_def is_ascii_def)

lemma is_ascii_map_upper: "is_ascii s \<Longrightarrow> is_ascii (map upper_ascii s)"
  by (induction s) (simp_all add: is_ascii_def upper_ascii_less)

lemma upper_idem_ascii: "is_ascii s \<Longrightarrow> upper U (upper U s) = upper U s"
  by (simp add: upper_of_ascii is_ascii_map_upper upper_ascii_idem)

lemma upper_idem:
  assumes "\<And>c. 128 \<le> c \<Longrightarrow> upper U (U c) = U c"
  shows "upper U (upper U s) = upper U s"
proof (induction s)
  case Nil
  show ?case by (simp add: upper_Nil)
next
  case (Cons c s)
  have "upper U (upper_cp U c) = upper_cp U c"
  proof (cases "c < 128")
    case True
    then show ?thesis
      by (simp add: upper_cp_def upper_Cons upper_Nil upper_ascii_less upper_ascii_idem)
  next
    case False
    then show ?thesis by (simp add: upper_cp_def assms)
  qed
  then show ?case by (simp add: upper_Cons upper_append Cons.IH)
qed

lemma example_table_closed: "128 \<le> c \<Longrightarrow> upper example_table (example_table c) = example_table c"
  by (simp add: example_table_def upper_Cons upper_Nil upper_cp_def upper_ascii_def)

lemma upper_tags:
  "upper U IMAGE_CLF = IMAGE_CLF"
  "upper U OBJECT_DETECTION = OBJECT_DETECTION"
  "upper U TXT_CLF = TXT_CLF"
  "upper U QNA = QNA"
  by (simp_all add: tag_defs upper_def upper_cp_def upper_ascii_def)

lemma upper_examples:
  "upper U (lit ''foo'') = lit ''FOO''"
  "upper U (lit ''FOO'') = lit ''FOO''"
  "upper U (lit ''image-classification'') = IMAGE_CLF"
  "upper U (lit ''Image-Classification'') = IMAGE_CLF"
  "upper U (lit ''Object-Detection'') = OBJECT_DETECTION"
  "upper U (lit ''text-classification'') = TXT_CLF"
  "upper U (lit ''question-ans'') = QNA"
  "upper example_table sharp_s_tag = TXT_CLF"
  "upper example_table cafe_tag = lit ''CAF'' @ [201]"
  by (simp_all add: tag_defs upper_def upper_cp_def upper_ascii_def example_table_def
      sharp_s_tag_def cafe_tag_def)

subsection \<open>Tags\<close>

lemma tags_distinct:
  "IMAGE_CLF \<noteq> OBJECT_DETECTION" "IMAGE_CLF \<noteq> TXT_CLF" "IMAGE_CLF \<noteq> QNA"
  "OBJECT_DETECTION \<noteq> IMAGE_CLF" "OBJECT_DETECTION \<noteq> TXT_CLF" "OBJECT_DETECTION \<noteq> QNA"
  "TXT_CLF \<noteq> IMAGE_CLF" "TXT_CLF \<noteq> OBJECT_DETECTION" "TXT_CLF \<noteq> QNA"
  "QNA \<noteq> IMAGE_CLF" "QNA \<noteq> OBJECT_DETECTION" "QNA \<noteq> TXT_CLF"
  by (simp_all add: tag_defs)

lemma available_tags:
  "get_available_api_types = [IMAGE_CLF, OBJECT_DETECTION, TXT_CLF, QNA]"
  by (simp add: get_available_api_types_def API_TYPES_def)


lemma in_api_types_VISION:
  "in_api_types x (lit ''VISION'') = Inr (x = IMAGE_CLF \<or> x = OBJECT_DETECTION)"
  by (simp add: in_api_types_def API_TYPES_def lit_def)

lemma in_api_types_NLP:
  "in_api_types x (lit ''NLP'') = Inr (x = TXT_CLF \<or> x = QNA)"
  by (simp add: in_api_types_def API_TYPES_def lit_def)

lemma set_default_processor_cases:
  "set_default_processor self =
     (if api_type self = IMAGE_CLF \<or> api_type self = OBJECT_DETECTION
      then Inr (self\<lparr>data_processor := Some Shared_vision\<rparr>, Shared_vision)
      else if api_type self = TXT_CLF \<or> api_type self = QNA
      then Inr (self\<lparr>data_processor := Some Shared_nlp\<rparr>, Shared_nlp)
      else Inl (UserWarning (not_implemented_message (api_type self))))"
  by (simp add: set_default_processor_def in_api_types_VISION in_api_types_NLP seq_def)

subsection \<open>The test of \<^verbatim>\<open>set_data_processor\<close>\<close>

lemma set_data_processor_None_iff:
  "set_data_processor pre post = None \<longleftrightarrow> \<not> truthy pre \<and> post = None"
  by (cases pre; simp add: set_data_processor_def py_or_def truthy_def)


lemma set_data_processor_simps:
  "set_data_processor None None = None"
  "set_data_processor (Some f) (Some g)
     = Some \<lparr>preprocess_fn = Some f, postprocess_fn = Some g\<rparr>"
  "set_data_processor None (Some g) = Some \<lparr>preprocess_fn = None, postprocess_fn = Some g\<rparr>"
  by (simp_all add: set_data_processor_def py_or_def truthy_def)

subsection \<open>The two halves of \<^verbatim>\<open>setup_api\<close>\<close>

lemma install_default_installed:
  "data_processor self = Some r \<Longrightarrow> install_default self kw D = Inr (self, D)"
  by (simp add: install_default_def)

lemma install_default_vision:
  assumes "data_processor self = None"
    and "api_type self = IMAGE_CLF \<or> api_type self = OBJECT_DETECTION"
  shows "install_default self kw D =
     Inr (self\<lparr>data_processor := Some Shared_vision\<rparr>,
          D\<lparr>vision :=
              \<lparr>default_pre = Callable True (\<lambda>kw' x. body (default_pre (vision D)) (kw ++ kw') x),
               default_post =
                 Callable True (\<lambda>kw' x. body (default_post (vision D)) (kw ++ kw') x)\<rparr>\<rparr>)"
  using assms
  by (simp add: install_default_def set_default_processor_cases seq_def partial_def)

lemma install_default_nlp:
  assumes "data_processor self = None"
    and "api_type self = TXT_CLF \<or> api_type self = QNA"
  shows "install_default self kw D =
     Inr (self\<lparr>data_processor := Some Shared_nlp\<rparr>,
          D\<lparr>nlp :=
              \<lparr>default_pre = Callable True (\<lambda>kw' x. body (default_pre (nlp D)) (kw ++ kw') x),
               default_post =
                 Callable True (\<lambda>kw' x. body (default_post (nlp D)) (kw ++ kw') x)\<rparr>\<rparr>)"
  using assms
  by (auto simp add: install_default_def set_default_processor_cases seq_def partial_def
      tags_distinct)


lemma setup_api_installed:
  "data_processor self = Some r \<Longrightarrow> setup_api self kw D = Inr (register_route self, D)"
  by (simp add: setup_api_def install_default_installed seq_def)


lemma setup_api_vision:
  assumes "data_processor self = None"
    and "api_type self = IMAGE_CLF \<or> api_type self = OBJECT_DETECTION"
  shows "setup_api self kw D =
     Inr (register_route (self\<lparr>data_processor := Some Shared_vision\<rparr>),
          D\<lparr>vision :=
              \<lparr>default_pre = Callable True (\<lambda>kw' x. body (default_pre (vision D)) (kw ++ kw') x),
               default_post =
                 Callable True (\<lambda>kw' x. body (default_post (vision D)) (kw ++ kw') x)\<rparr>\<rparr>)"
  by (simp add: setup_api_def install_default_vision [OF assms] seq_def)

lemma setup_api_nlp:
  assumes "data_processor self = None"
    and "api_type self = TXT_CLF \<or> api_type self = QNA"
  shows "setup_api self kw D =
     Inr (register_route (self\<lparr>data_processor := Some Shared_nlp\<rparr>),
          D\<lparr>nlp :=
              \<lparr>default_pre = Callable True (\<lambda>kw' x. body (default_pre (nlp D)) (kw ++ kw') x),
               default_post =
                 Callable True (\<lambda>kw' x. body (default_post (nlp D)) (kw ++ kw') x)\<rparr>\<rparr>)"
  by (simp add: setup_api_def install_default_nlp [OF assms] seq_def)

lemma setup_api_recognized:
  assumes "api_type self \<in> set get_available_api_types"
  shows "\<exists>r D'. setup_api self kw D = Inr (register_route (self\<lparr>data_processor := Some r\<rparr>), D')"
proof (cases "data_processor self")
  case None
  from assms consider "api_type self = IMAGE_CLF \<or> api_type self = OBJECT_DETECTION"
    | "api_type self = TXT_CLF \<or> api_type self = QNA"
    by (auto simp add: available_tags)
  then show ?thesis
  proof cases
    case 1
    show ?thesis unfolding setup_api_vision [OF None 1] by blast
  next
    case 2
    show ?thesis unfolding setup_api_nlp [OF None 2] by blast
  qed
next
  case (Some r)
  then have "self\<lparr>data_processor := Some r\<rparr> = self" by simp
  then show ?thesis using setup_api_installed [OF Some, of kw D] by metis
qed


lemma data_processor_register_route [simp]:
  "data_processor (register_route self) = data_processor self"
  by (simp add: register_route_def)

lemma model_register_route [simp]:
  "model (register_route self) = model self"
  by (simp add: register_route_def)

lemma routes_register_route:
  "routes (app (register_route s)) =
     routes (app s) @
       (if api_type s = IMAGE_CLF then [POST_route (lit ''/api/predict-image'') Predict_image]
        else if api_type s = TXT_CLF then [POST_route (lit ''/api/predict-text'') Predict_text]
        else if api_type s = QNA then [POST_route (lit ''/api/QnA'') Predict_question_answer]
        else [])"
  by (simp add: register_route_def app_post_def POST_route_def)

subsection \<open>The constructor\<close>

lemma API_init_unfold:
  "API_init U t m pre post kw D =
     setup_api
       \<lparr>api_type = upper U t, model = m,
        data_processor = map_option Own (set_data_processor pre post),
        app = new_FastAPI (kwargs_get kw (lit ''title'') (PyStr default_title))
                (kwargs_get kw (lit ''description'') (PyStr default_description))
                (kwargs_get kw (lit ''docs_url'') (PyStr (lit ''/docs'')))\<rparr> kw D"
  by (simp add: API_init_def ModelServer_init_def Let_def ModelServer.defs API.defs)

lemma API_init_same_upper:
  "upper U s = upper U t \<Longrightarrow> API_init U s m pre post kw D = API_init U t m pre post kw D"
  by (simp add: API_init_unfold)



subsection \<open>The text handler\<close>

lemma predict_text_unfold:
  "predict_text self D data =
     (case data_processor self of
        None \<Rightarrow> Inl (AttributeError (lit ''NoneType object has no attribute''))
      | Some r \<Rightarrow>
          seq (if truthy (preprocess_fn (deref D r))
               then call (preprocess_fn (deref D r)) Map.empty (PyStr (query data))
               else Inr (PyStr (query data))) (\<lambda>x.
            seq (model self x) (\<lambda>y.
              if truthy (postprocess_fn (deref D r))
              then call (postprocess_fn (deref D r)) Map.empty y
              else Inr y)))"
  by (auto simp add: predict_text_def the_data_processor_def seq_def preprocess_def
      postprocess_def split: option.splits sum.splits)

lemma predict_text_with_default:
  assumes "upper U t = TXT_CLF"
  shows "construct_then_predict_text U t m None None kw D q
           = seq (body (default_pre (nlp D)) kw (PyStr q)) (\<lambda>x.
               seq (m x) (\<lambda>y. body (default_post (nlp D)) kw y))"
proof -
  let ?self = "\<lparr>api_type = upper U t, model = m, data_processor = None,
        app = new_FastAPI (kwargs_get kw (lit ''title'') (PyStr default_title))
                (kwargs_get kw (lit ''description'') (PyStr default_description))
                (kwargs_get kw (lit ''docs_url'') (PyStr (lit ''/docs'')))\<rparr>"
  have n: "data_processor ?self = None" by simp
  have t: "api_type ?self = TXT_CLF \<or> api_type ?self = QNA" using assms by simp
  show ?thesis
    by (simp add: construct_then_predict_text_def API_init_unfold set_data_processor_simps
        setup_api_nlp [OF n t, of kw D] predict_text_unfold seq_def truthy_def call_def
        split: sum.splits)
qed

subsection \<open>Construction without a processor\<close>

lemma API_init_vision:
  assumes "upper U t = IMAGE_CLF \<or> upper U t = OBJECT_DETECTION"
  shows "API_init U t m None None kw D =
     Inr (register_route
            \<lparr>api_type = upper U t, model = m, data_processor = Some Shared_vision,
             app = new_FastAPI (kwargs_get kw (lit ''title'') (PyStr default_title))
                     (kwargs_get kw (lit ''description'') (PyStr default_description))
                     (kwargs_get kw (lit ''docs_url'') (PyStr (lit ''/docs'')))\<rparr>,
          D\<lparr>vision :=
              \<lparr>default_pre = Callable True (\<lambda>kw' x. body (default_pre (vision D)) (kw ++ kw') x),
               default_post =
                 Callable True (\<lambda>kw' x. body (default_post (vision D)) (kw ++ kw') x)\<rparr>\<rparr>)"
proof -
  let ?self = "\<lparr>api_type = upper U t, model = m, data_processor = None,
        app = new_FastAPI (kwargs_get kw (lit ''title'') (PyStr default_title))
                (kwargs_get kw (lit ''description'') (PyStr default_description))
                (kwargs_get kw (lit ''docs_url'') (PyStr (lit ''/docs'')))\<rparr>"
  have n: "data_processor ?self = None" by simp
  have v: "api_type ?self = IMAGE_CLF \<or> api_type ?self = OBJECT_DETECTION"
    using assms by simp
  show ?thesis
    by (simp add: API_init_unfold set_data_processor_simps setup_api_vision [OF n v, of kw D])
qed

lemma API_init_nlp:
  assumes "upper U t = TXT_CLF \<or> upper U t = QNA"
  shows "API_init U t m None None kw D =
     Inr (register_route
            \<lparr>api_type = upper U t, model = m, data_processor = Some Shared_nlp,
             app = new_FastAPI (kwargs_get kw (lit ''title'') (PyStr default_title))
                     (kwargs_get kw (lit ''description'') (PyStr default_description))
                     (kwargs_get kw (lit ''docs_url'') (PyStr (lit ''/docs'')))\<rparr>,
          D\<lparr>nlp :=
              \<lparr>default_pre = Callable True (\<lambda>kw' x. body (default_pre (nlp D)) (kw ++ kw') x),
               default_post =
                 Callable True (\<lambda>kw' x. body (default_post (nlp D)) (kw ++ kw') x)\<rparr>\<rparr>)"
proof -
  let ?self = "\<lparr>api_type = upper U t, model = m, data_processor = None,
        app = new_FastAPI (kwargs_get kw (lit ''title'') (PyStr default_title))
                (kwargs_get kw (lit ''description'') (PyStr default_description))
                (kwargs_get kw (lit ''docs_url'') (PyStr (lit ''/docs'')))\<rparr>"
  have n: "data_processor ?self = None" by simp
  have v: "api_type ?self = TXT_CLF \<or> api_type ?self = QNA"
    using assms by simp
  show ?thesis
    by (simp add: API_init_unfold set_data_processor_simps setup_api_nlp [OF n v, of kw D])
qed

lemma nlp_not_vision:
  "t = TXT_CLF \<or> t = QNA \<Longrightarrow> \<not> (t = IMAGE_CLF \<or> t = OBJECT_DETECTION)"
  by (auto simp add: tags_distinct)

section \<open>Default-processor resolution\<close>

text \<open>
  Claim C1.  For every task tag, \<^verbatim>\<open>set_default_processor\<close> on a server constructed
  with that tag returns the shared vision default when the uppercased tag is
  \<^verbatim>\<open>IMAGE-CLASSIFICATION\<close> or \<^verbatim>\<open>OBJECT-DETECTION\<close>, the shared natural-language default
  when it is \<^verbatim>\<open>TEXT-CLASSIFICATION\<close> or \<^verbatim>\<open>QUESTION-ANS\<close>, and raises
  \<^verbatim>\<open>UserWarning\<close> for every other string.  On success the returned object is also
  stored in the server.  The uppercased tag of an ASCII string is the string with its
  lowercase letters raised, whatever the table for the other code points is.
\<close>

theorem set_default_processor_by_tag:
  "set_default_processor (ModelServer_init U t m pre post kw) =
     (if upper U t = IMAGE_CLF \<or> upper U t = OBJECT_DETECTION
      then Inr ((ModelServer_init U t m pre post kw)\<lparr>data_processor := Some Shared_vision\<rparr>,
                Shared_vision)
      else if upper U t = TXT_CLF \<or> upper U t = QNA
      then Inr ((ModelServer_init U t m pre post kw)\<lparr>data_processor := Some Shared_nlp\<rparr>,
                Shared_nlp)
      else Inl (UserWarning (not_implemented_message (upper U t))))
   \<and> (is_ascii t \<longrightarrow> upper U t = map upper_ascii t)"
  by (simp add: set_default_processor_cases ModelServer_init_def upper_of_ascii)

theorem set_default_processor_by_tag_witness:
  "is_ascii (lit ''image-classification'')
   \<and> map upper_ascii (lit ''image-classification'') = IMAGE_CLF
   \<and> set_default_processor
       (ModelServer_init example_table (lit ''image-classification'') example_model None None
          Map.empty)
     = Inr (\<lparr>api_type = IMAGE_CLF, model = example_model,
             data_processor = Some Shared_vision\<rparr>, Shared_vision)
   \<and> set_default_processor
       (ModelServer_init example_table sharp_s_tag example_model None None Map.empty)
     = Inr (\<lparr>api_type = TXT_CLF, model = example_model,
             data_processor = Some Shared_nlp\<rparr>, Shared_nlp)
   \<and> set_default_processor
       (ModelServer_init example_table cafe_tag example_model None None Map.empty)
     = Inl (UserWarning (not_implemented_message (lit ''CAF'' @ [201])))"
proof -
  have a: "is_ascii (lit ''image-classification'')"
    by (simp add: is_ascii_def lit_def)
  have b: "lit ''CAF'' @ [201] \<notin> set [IMAGE_CLF, OBJECT_DETECTION, TXT_CLF, QNA]"
    by (simp add: tag_defs)
  show ?thesis
    using a b
      set_default_processor_by_tag [of example_table "lit ''image-classification''"
        example_model None None Map.empty]
      set_default_processor_by_tag [of example_table sharp_s_tag example_model None None
        Map.empty]
      set_default_processor_by_tag [of example_table cafe_tag example_model None None
        Map.empty]
    by (simp add: upper_examples tags_distinct ModelServer_init_def
        set_data_processor_simps)
qed

section \<open>The image handler\<close>

text \<open>
  Claim C2.  For every uploaded byte string, every model and every installed pair of a
  preprocess and a postprocess function, the handler of \<^verbatim>\<open>/api/predict-image\<close> applies
  preprocess to the bytes, the model to that result and postprocess to the model's result,
  with no condition on any of the three steps; an exception of a step ends the request
  with that exception.
\<close>

theorem predict_image_composes:
  assumes "the_data_processor self D = Inr \<lparr>preprocess_fn = Some f, postprocess_fn = Some g\<rparr>"
  shows "predict_image self D B =
     seq (body f Map.empty (PyBytes B)) (\<lambda>x. seq (model self x) (\<lambda>y. body g Map.empty y))"
  using assms by (simp add: predict_image_def seq_def call_def Let_def split: sum.splits)

theorem predict_image_composes_witness:
  "the_data_processor
     ((example_server IMAGE_CLF)\<lparr>data_processor := Some Shared_vision\<rparr>) example_defaults
     = Inr \<lparr>preprocess_fn = Some (tagged ''vision_pre''),
            postprocess_fn = Some (tagged ''vision_post'')\<rparr>
   \<and> predict_image
       ((example_server IMAGE_CLF)\<lparr>data_processor := Some Shared_vision\<rparr>) example_defaults
       [1, 2, 3]
     = Inr (PyTuple [PyStr (lit ''vision_post''), PyNone,
              PyTuple [PyStr (lit ''model''),
                PyTuple [PyStr (lit ''vision_pre''), PyNone, PyBytes [1, 2, 3]]]])"
proof -
  have h: "the_data_processor
     ((example_server IMAGE_CLF)\<lparr>data_processor := Some Shared_vision\<rparr>) example_defaults
     = Inr \<lparr>preprocess_fn = Some (tagged ''vision_pre''),
            postprocess_fn = Some (tagged ''vision_post'')\<rparr>"
    by (simp add: the_data_processor_def example_server_def example_defaults_def)
  show ?thesis
    using h predict_image_composes [OF h, of "[1, 2, 3]"]
    by (simp add: seq_def example_server_def example_model_def tagged_def tagged_body_def
        plain_function_def kwargs_get_def)
qed

section \<open>Unrecognized tags\<close>




section \<open>The text handler after construction\<close>




section \<open>Supplied processors\<close>

text \<open>
  Claim C5.  For every API constructed with both a preprocess and a postprocess function,
  the default processor is not resolved: the installed processor is the supplied pair, the
  result does not depend on the category defaults, and the defaults are returned as they
  were.  The tag only selects the route.
\<close>

theorem supplied_pair_is_installed:
  "API_init U t m (Some f) (Some g) kw D =
     Inr (register_route
            \<lparr>api_type = upper U t, model = m,
             data_processor = Some (Own \<lparr>preprocess_fn = Some f, postprocess_fn = Some g\<rparr>),
             app = new_FastAPI (kwargs_get kw (lit ''title'') (PyStr default_title))
                     (kwargs_get kw (lit ''description'') (PyStr default_description))
                     (kwargs_get kw (lit ''docs_url'') (PyStr (lit ''/docs'')))\<rparr>,
          D)"
  by (simp add: API_init_unfold setup_api_installed set_data_processor_simps)

section \<open>Routes\<close>

text \<open>
  Claim C6.  For a server with a recognized tag, \<^verbatim>\<open>setup_api\<close> returns; with the tag
  \<^verbatim>\<open>OBJECT-DETECTION\<close> it leaves the route table of the application as it was, and with
  each of the other three tags it adds exactly one POST route, at
  \<^verbatim>\<open>/api/predict-image\<close>, \<^verbatim>\<open>/api/predict-text\<close> and \<^verbatim>\<open>/api/QnA\<close>.
\<close>

theorem setup_api_routes:
  assumes "api_type self \<in> set get_available_api_types"
  shows "\<exists>self' D'. setup_api self kw D = Inr (self', D')
       \<and> (api_type self = OBJECT_DETECTION \<longrightarrow> routes (app self') = routes (app self))
       \<and> (api_type self = IMAGE_CLF \<longrightarrow>
            routes (app self')
              = routes (app self) @ [POST_route (lit ''/api/predict-image'') Predict_image])
       \<and> (api_type self = TXT_CLF \<longrightarrow>
            routes (app self')
              = routes (app self) @ [POST_route (lit ''/api/predict-text'') Predict_text])
       \<and> (api_type self = QNA \<longrightarrow>
            routes (app self')
              = routes (app self) @ [POST_route (lit ''/api/QnA'') Predict_question_answer])"
proof -
  from setup_api_recognized [OF assms] obtain r D' where
    s: "setup_api self kw D = Inr (register_route (self\<lparr>data_processor := Some r\<rparr>), D')"
    by blast
  have "routes (app (register_route (self\<lparr>data_processor := Some r\<rparr>))) =
     routes (app self) @
       (if api_type self = IMAGE_CLF
        then [POST_route (lit ''/api/predict-image'') Predict_image]
        else if api_type self = TXT_CLF
        then [POST_route (lit ''/api/predict-text'') Predict_text]
        else if api_type self = QNA
        then [POST_route (lit ''/api/QnA'') Predict_question_answer]
        else [])"
    by (simp add: routes_register_route)
  with s show ?thesis
    by (simp add: tags_distinct)
qed

theorem setup_api_routes_witness:
  "(\<exists>self' D'. setup_api (example_server OBJECT_DETECTION) example_kwargs example_defaults
        = Inr (self', D') \<and> routes (app self') = [])
   \<and> (\<exists>self' D'. setup_api (example_server IMAGE_CLF) example_kwargs example_defaults
        = Inr (self', D')
        \<and> routes (app self') = [POST_route (lit ''/api/predict-image'') Predict_image])
   \<and> (\<exists>self' D'. setup_api (example_server TXT_CLF) example_kwargs example_defaults
        = Inr (self', D')
        \<and> routes (app self') = [POST_route (lit ''/api/predict-text'') Predict_text])
   \<and> (\<exists>self' D'. setup_api (example_server QNA) example_kwargs example_defaults
        = Inr (self', D')
        \<and> routes (app self') = [POST_route (lit ''/api/QnA'') Predict_question_answer])"
proof -
  have h: "api_type (example_server OBJECT_DETECTION) \<in> set get_available_api_types"
    "api_type (example_server IMAGE_CLF) \<in> set get_available_api_types"
    "api_type (example_server TXT_CLF) \<in> set get_available_api_types"
    "api_type (example_server QNA) \<in> set get_available_api_types"
    by (simp_all add: example_server_def available_tags)
  have r: "routes (app (example_server t)) = []" "api_type (example_server t) = t" for t
    by (simp_all add: example_server_def new_FastAPI_def)
  show ?thesis
    using setup_api_routes [OF h(1), of example_kwargs example_defaults]
      setup_api_routes [OF h(2), of example_kwargs example_defaults]
      setup_api_routes [OF h(3), of example_kwargs example_defaults]
      setup_api_routes [OF h(4), of example_kwargs example_defaults]
    by (simp add: r tags_distinct)
qed

section \<open>The factory function\<close>




section \<open>Keyword arguments bound into the defaults\<close>

text \<open>
  Claim C8, as amended.  Whenever an API with a recognized tag is constructed with no
  processor supplied, the default of the tag's category is selected and installed, and the
  route is registered on the server that already holds it.  Both functions of the shared
  default are replaced by partial applications of themselves to all keyword arguments of
  the constructor: a call of either bound function receives those keywords, overridden by
  keywords given at the call, and a call with no keywords, as the handlers make it, receives
  exactly those.  The binding lives in the shared object of the category: a later
  construction in the same category with no processor binds its own keywords on top, and
  the functions that every API of the category then calls receive both sets, the later
  keywords taking precedence.
\<close>

theorem default_binds_kwargs:
  assumes "upper U t \<in> set get_available_api_types"
  shows "\<exists>r p q D'.
       API_init U t m None None kw D
         = Inr (register_route
                  \<lparr>api_type = upper U t, model = m, data_processor = Some r,
                   app = new_FastAPI (kwargs_get kw (lit ''title'') (PyStr default_title))
                           (kwargs_get kw (lit ''description'') (PyStr default_description))
                           (kwargs_get kw (lit ''docs_url'') (PyStr (lit ''/docs'')))\<rparr>, D')
       \<and> r = (if upper U t = IMAGE_CLF \<or> upper U t = OBJECT_DETECTION
              then Shared_vision else Shared_nlp)
       \<and> deref D' r = \<lparr>preprocess_fn = Some p, postprocess_fn = Some q\<rparr>
       \<and> truth p \<and> truth q
       \<and> (\<forall>kw' x. body p kw' x = call (preprocess_fn (deref D r)) (kw ++ kw') x)
       \<and> (\<forall>kw' x. body q kw' x = call (postprocess_fn (deref D r)) (kw ++ kw') x)
       \<and> (\<forall>x. body p Map.empty x = call (preprocess_fn (deref D r)) kw x)
       \<and> (\<forall>x. body q Map.empty x = call (postprocess_fn (deref D r)) kw x)
       \<and> (\<forall>t2 m2 kw2.
             upper U t2 \<in> set get_available_api_types
             \<and> ((upper U t2 = IMAGE_CLF \<or> upper U t2 = OBJECT_DETECTION)
                  \<longleftrightarrow> (upper U t = IMAGE_CLF \<or> upper U t = OBJECT_DETECTION))
             \<longrightarrow> (\<exists>api2 p2 q2 D2.
                    API_init U t2 m2 None None kw2 D' = Inr (api2, D2)
                    \<and> data_processor api2 = Some r
                    \<and> deref D2 r = \<lparr>preprocess_fn = Some p2, postprocess_fn = Some q2\<rparr>
                    \<and> (\<forall>kw' x. body p2 kw' x
                          = call (preprocess_fn (deref D r)) (kw ++ kw2 ++ kw') x)
                    \<and> (\<forall>kw' x. body q2 kw' x
                          = call (postprocess_fn (deref D r)) (kw ++ kw2 ++ kw') x)))"
proof -
  from assms consider "upper U t = IMAGE_CLF \<or> upper U t = OBJECT_DETECTION"
    | "upper U t = TXT_CLF \<or> upper U t = QNA"
    by (auto simp add: available_tags)
  then show ?thesis
  proof cases
    case 1
    let ?p = "Callable True (\<lambda>kw' x. body (default_pre (vision D)) (kw ++ kw') x)"
    let ?q = "Callable True (\<lambda>kw' x. body (default_post (vision D)) (kw ++ kw') x)"
    let ?D' = "D\<lparr>vision := \<lparr>default_pre = ?p, default_post = ?q\<rparr>\<rparr>"
    have later: "\<exists>api2 p2 q2 D2.
                    API_init U t2 m2 None None kw2 ?D' = Inr (api2, D2)
                    \<and> data_processor api2 = Some Shared_vision
                    \<and> deref D2 Shared_vision
                        = \<lparr>preprocess_fn = Some p2, postprocess_fn = Some q2\<rparr>
                    \<and> (\<forall>kw' x. body p2 kw' x
                          = call (preprocess_fn (deref D Shared_vision)) (kw ++ kw2 ++ kw') x)
                    \<and> (\<forall>kw' x. body q2 kw' x
                          = call (postprocess_fn (deref D Shared_vision)) (kw ++ kw2 ++ kw') x)"
      if "upper U t2 = IMAGE_CLF \<or> upper U t2 = OBJECT_DETECTION" for t2 m2 kw2
      by (simp add: API_init_vision [OF that] call_def map_add_assoc)
    have first: "API_init U t m None None kw D
         = Inr (register_route
                  \<lparr>api_type = upper U t, model = m, data_processor = Some Shared_vision,
                   app = new_FastAPI (kwargs_get kw (lit ''title'') (PyStr default_title))
                           (kwargs_get kw (lit ''description'') (PyStr default_description))
                           (kwargs_get kw (lit ''docs_url'') (PyStr (lit ''/docs'')))\<rparr>, ?D')"
      by (rule API_init_vision [OF 1])
    have bound: "deref ?D' Shared_vision = \<lparr>preprocess_fn = Some ?p, postprocess_fn = Some ?q\<rparr>"
      "truth ?p" "truth ?q"
      "\<forall>kw' x. body ?p kw' x = call (preprocess_fn (deref D Shared_vision)) (kw ++ kw') x"
      "\<forall>kw' x. body ?q kw' x = call (postprocess_fn (deref D Shared_vision)) (kw ++ kw') x"
      "\<forall>x. body ?p Map.empty x = call (preprocess_fn (deref D Shared_vision)) kw x"
      "\<forall>x. body ?q Map.empty x = call (postprocess_fn (deref D Shared_vision)) kw x"
      by (simp_all add: call_def)
    have r: "(if upper U t = IMAGE_CLF \<or> upper U t = OBJECT_DETECTION
              then Shared_vision else Shared_nlp) = Shared_vision"
      using 1 by simp
    show ?thesis
      apply (rule exI [of _ Shared_vision])
      apply (rule exI [of _ ?p])
      apply (rule exI [of _ ?q])
      apply (rule exI [of _ ?D'])
      apply (intro conjI allI impI)
      subgoal by (rule first)
      subgoal by (simp only: r)
      subgoal by (rule bound)
      subgoal by (rule bound)
      subgoal by (rule bound)
      subgoal using bound(4) by blast
      subgoal using bound(5) by blast
      subgoal using bound(6) by blast
      subgoal using bound(7) by blast
      subgoal for t2 m2 kw2 using 1 by (intro later) blast
      done
  next
    case 2
    note v = nlp_not_vision [OF 2]
    let ?p = "Callable True (\<lambda>kw' x. body (default_pre (nlp D)) (kw ++ kw') x)"
    let ?q = "Callable True (\<lambda>kw' x. body (default_post (nlp D)) (kw ++ kw') x)"
    let ?D' = "D\<lparr>nlp := \<lparr>default_pre = ?p, default_post = ?q\<rparr>\<rparr>"
    have later: "\<exists>api2 p2 q2 D2.
                    API_init U t2 m2 None None kw2 ?D' = Inr (api2, D2)
                    \<and> data_processor api2 = Some Shared_nlp
                    \<and> deref D2 Shared_nlp
                        = \<lparr>preprocess_fn = Some p2, postprocess_fn = Some q2\<rparr>
                    \<and> (\<forall>kw' x. body p2 kw' x
                          = call (preprocess_fn (deref D Shared_nlp)) (kw ++ kw2 ++ kw') x)
                    \<and> (\<forall>kw' x. body q2 kw' x
                          = call (postprocess_fn (deref D Shared_nlp)) (kw ++ kw2 ++ kw') x)"
      if "upper U t2 \<in> set get_available_api_types"
        "\<not> (upper U t2 = IMAGE_CLF \<or> upper U t2 = OBJECT_DETECTION)" for t2 m2 kw2
    proof -
      from that have n: "upper U t2 = TXT_CLF \<or> upper U t2 = QNA"
        by (auto simp add: available_tags)
      show ?thesis
        by (simp add: API_init_nlp [OF n] call_def map_add_assoc)
    qed
    have first: "API_init U t m None None kw D
         = Inr (register_route
                  \<lparr>api_type = upper U t, model = m, data_processor = Some Shared_nlp,
                   app = new_FastAPI (kwargs_get kw (lit ''title'') (PyStr default_title))
                           (kwargs_get kw (lit ''description'') (PyStr default_description))
                           (kwargs_get kw (lit ''docs_url'') (PyStr (lit ''/docs'')))\<rparr>, ?D')"
      by (rule API_init_nlp [OF 2])
    have bound: "deref ?D' Shared_nlp = \<lparr>preprocess_fn = Some ?p, postprocess_fn = Some ?q\<rparr>"
      "truth ?p" "truth ?q"
      "\<forall>kw' x. body ?p kw' x = call (preprocess_fn (deref D Shared_nlp)) (kw ++ kw') x"
      "\<forall>kw' x. body ?q kw' x = call (postprocess_fn (deref D Shared_nlp)) (kw ++ kw') x"
      "\<forall>x. body ?p Map.empty x = call (preprocess_fn (deref D Shared_nlp)) kw x"
      "\<forall>x. body ?q Map.empty x = call (postprocess_fn (deref D Shared_nlp)) kw x"
      by (simp_all add: call_def)
    have r: "(if upper U t = IMAGE_CLF \<or> upper U t = OBJECT_DETECTION
              then Shared_vision else Shared_nlp) = Shared_nlp"
      using v by simp
    show ?thesis
      apply (rule exI [of _ Shared_nlp])
      apply (rule exI [of _ ?p])
      apply (rule exI [of _ ?q])
      apply (rule exI [of _ ?D'])
      apply (intro conjI allI impI)
      subgoal by (rule first)
      subgoal by (simp only: r)
      subgoal by (rule bound)
      subgoal by (rule bound)
      subgoal by (rule bound)
      subgoal using bound(4) by blast
      subgoal using bound(5) by blast
      subgoal using bound(6) by blast
      subgoal using bound(7) by blast
      subgoal for t2 m2 kw2 using v by (intro later) blast+
      done
  qed
qed

theorem default_binds_kwargs_witness:
  "upper example_table (lit ''image-classification'') \<in> set get_available_api_types
   \<and> (\<exists>api D' p q.
        API_init example_table (lit ''image-classification'') example_model None None
          example_kwargs example_defaults = Inr (api, D')
        \<and> data_processor api = Some Shared_vision
        \<and> deref D' Shared_vision = \<lparr>preprocess_fn = Some p, postprocess_fn = Some q\<rparr>
        \<and> body p Map.empty (PyBytes [7])
            = Inr (PyTuple [PyStr (lit ''vision_pre''), PyTuple [PyInt 224, PyInt 224],
                     PyBytes [7]])
        \<and> body q Map.empty PyNone
            = Inr (PyTuple [PyStr (lit ''vision_post''), PyTuple [PyInt 224, PyInt 224],
                     PyNone])
        \<and> (\<exists>api2 D2 p2 q2.
              API_init example_table OBJECT_DETECTION example_model None None small_kwargs D'
                = Inr (api2, D2)
              \<and> deref D2 Shared_vision = \<lparr>preprocess_fn = Some p2, postprocess_fn = Some q2\<rparr>
              \<and> body p2 Map.empty (PyBytes [7])
                  = Inr (PyTuple [PyStr (lit ''vision_pre''), PyTuple [PyInt 32, PyInt 32],
                           PyBytes [7]])))"
proof -
  have h: "upper example_table (lit ''image-classification'') \<in> set get_available_api_types"
    by (simp add: upper_examples available_tags)
  have u: "upper example_table (lit ''image-classification'') = IMAGE_CLF"
    by (rule upper_examples)
  have k: "(example_kwargs ++ small_kwargs) (lit ''image_shape'')
             = Some (PyTuple [PyInt 32, PyInt 32])"
    "example_kwargs (lit ''image_shape'') = Some (PyTuple [PyInt 224, PyInt 224])"
    by (simp_all add: example_kwargs_def small_kwargs_def)
  from default_binds_kwargs [OF h, of example_model example_kwargs example_defaults,
      unfolded u]
  obtain r p q D' where
    a: "API_init example_table (lit ''image-classification'') example_model None None
          example_kwargs example_defaults
         = Inr (register_route
                  \<lparr>api_type = IMAGE_CLF, model = example_model, data_processor = Some r,
                   app = new_FastAPI
                           (kwargs_get example_kwargs (lit ''title'') (PyStr default_title))
                           (kwargs_get example_kwargs (lit ''description'')
                              (PyStr default_description))
                           (kwargs_get example_kwargs (lit ''docs_url'')
                              (PyStr (lit ''/docs'')))\<rparr>, D')"
    and r: "r = (if IMAGE_CLF = IMAGE_CLF \<or> IMAGE_CLF = OBJECT_DETECTION
                then Shared_vision else Shared_nlp)"
    and d: "deref D' r = \<lparr>preprocess_fn = Some p, postprocess_fn = Some q\<rparr>"
    and p: "\<forall>x. body p Map.empty x
              = call (preprocess_fn (deref example_defaults r)) example_kwargs x"
    and q: "\<forall>x. body q Map.empty x
              = call (postprocess_fn (deref example_defaults r)) example_kwargs x"
    and later: "\<forall>t2 m2 kw2.
             upper example_table t2 \<in> set get_available_api_types
             \<and> ((upper example_table t2 = IMAGE_CLF \<or> upper example_table t2 = OBJECT_DETECTION)
                  \<longleftrightarrow> (IMAGE_CLF = IMAGE_CLF \<or> IMAGE_CLF = OBJECT_DETECTION))
             \<longrightarrow> (\<exists>api2 p2 q2 D2.
                    API_init example_table t2 m2 None None kw2 D' = Inr (api2, D2)
                    \<and> data_processor api2 = Some r
                    \<and> deref D2 r = \<lparr>preprocess_fn = Some p2, postprocess_fn = Some q2\<rparr>
                    \<and> (\<forall>kw' x. body p2 kw' x
                          = call (preprocess_fn (deref example_defaults r))
                              (example_kwargs ++ kw2 ++ kw') x)
                    \<and> (\<forall>kw' x. body q2 kw' x
                          = call (postprocess_fn (deref example_defaults r))
                              (example_kwargs ++ kw2 ++ kw') x))"
    by blast
  from r have r': "r = Shared_vision" by simp
  have p7: "body p Map.empty (PyBytes [7])
      = Inr (PyTuple [PyStr (lit ''vision_pre''), PyTuple [PyInt 224, PyInt 224], PyBytes [7]])"
    by (simp add: p r' call_def example_defaults_def tagged_def tagged_body_def
        plain_function_def kwargs_get_def k)
  have q7: "body q Map.empty PyNone
      = Inr (PyTuple [PyStr (lit ''vision_post''), PyTuple [PyInt 224, PyInt 224], PyNone])"
    by (simp add: q r' call_def example_defaults_def tagged_def tagged_body_def
        plain_function_def kwargs_get_def k)
  have "upper example_table OBJECT_DETECTION \<in> set get_available_api_types
        \<and> ((upper example_table OBJECT_DETECTION = IMAGE_CLF
              \<or> upper example_table OBJECT_DETECTION = OBJECT_DETECTION)
             \<longleftrightarrow> (IMAGE_CLF = IMAGE_CLF \<or> IMAGE_CLF = OBJECT_DETECTION))"
    by (simp add: upper_tags available_tags)
  with later obtain api2 p2 q2 D2 where
    a2: "API_init example_table OBJECT_DETECTION example_model None None small_kwargs D'
           = Inr (api2, D2)"
    and d2: "deref D2 r = \<lparr>preprocess_fn = Some p2, postprocess_fn = Some q2\<rparr>"
    and p2: "\<forall>kw' x. body p2 kw' x
                = call (preprocess_fn (deref example_defaults r))
                    (example_kwargs ++ small_kwargs ++ kw') x"
    by blast
  have p27: "body p2 Map.empty (PyBytes [7])
      = Inr (PyTuple [PyStr (lit ''vision_pre''), PyTuple [PyInt 32, PyInt 32], PyBytes [7]])"
    by (simp add: p2 r' call_def example_defaults_def tagged_def tagged_body_def
        plain_function_def kwargs_get_def k)
  show ?thesis
    using h a d p7 q7 a2 d2 p27 unfolding r' by auto
qed

text \<open>
  The claim as first stated has every later call receive the keywords of the
  construction.  An API for image classification is built with
  \<^verbatim>\<open>image_shape=(224, 224)\<close>, then one for object detection with
  \<^verbatim>\<open>image_shape=(32, 32)\<close>; the image handler of the first API now calls both default
  functions with the second shape.
\<close>

theorem second_construction_rebinds_first:
  "construct_two_then_predict_image example_table IMAGE_CLF example_model example_kwargs
     OBJECT_DETECTION example_model small_kwargs example_defaults [1, 2, 3]
   = Inr (PyTuple [PyStr (lit ''vision_post''), PyTuple [PyInt 32, PyInt 32],
            PyTuple [PyStr (lit ''model''),
              PyTuple [PyStr (lit ''vision_pre''), PyTuple [PyInt 32, PyInt 32],
                PyBytes [1, 2, 3]]]])"
proof -
  have v: "upper example_table IMAGE_CLF = IMAGE_CLF \<or>
           upper example_table IMAGE_CLF = OBJECT_DETECTION"
    "upper example_table OBJECT_DETECTION = IMAGE_CLF \<or>
     upper example_table OBJECT_DETECTION = OBJECT_DETECTION"
    by (simp_all add: upper_tags)
  have k: "(example_kwargs ++ small_kwargs) (lit ''image_shape'')
             = Some (PyTuple [PyInt 32, PyInt 32])"
    by (simp add: example_kwargs_def small_kwargs_def)
  show ?thesis
    by (simp add: construct_two_then_predict_image_def API_init_vision [OF v(1)]
        API_init_vision [OF v(2)] seq_def predict_image_def the_data_processor_def call_def
        example_defaults_def example_model_def tagged_def tagged_body_def plain_function_def
        kwargs_get_def k)
qed

section \<open>When the default is substituted\<close>

text \<open>
  Claim C9.  \<^verbatim>\<open>set_data_processor\<close> is to return \<^verbatim>\<open>None\<close> if and only if both
  functions are \<^verbatim>\<open>None\<close>.  Its test is \<^verbatim>\<open>(preprocess_fn or postprocess_fn) is None\<close>,
  and \<^verbatim>\<open>or\<close> goes by the truth value of its left operand: a preprocess function that is
  a false object, given without a postprocess function, is taken for a missing one.
  \<^verbatim>\<open>set_data_processor\<close> returns \<^verbatim>\<open>None\<close> for it, and the constructor installs the
  category default in place of the function that was supplied.
\<close>

theorem falsy_preprocess_is_dropped:
  "Some (falsy_tagged ''user_pre'') \<noteq> None
   \<and> set_data_processor (Some (falsy_tagged ''user_pre'')) None = None
   \<and> API_init example_table IMAGE_CLF example_model (Some (falsy_tagged ''user_pre'')) None
       Map.empty example_defaults
     = API_init example_table IMAGE_CLF example_model None None Map.empty example_defaults
   \<and> construct_then_predict_text example_table TXT_CLF example_model
       (Some (falsy_tagged ''user_pre'')) None Map.empty example_defaults (lit ''hi'')
     = Inr (PyTuple [PyStr (lit ''nlp_post''), PyNone,
              PyTuple [PyStr (lit ''model''),
                PyTuple [PyStr (lit ''nlp_pre''), PyNone, PyStr (lit ''hi'')]]])"
proof -
  have s: "set_data_processor (Some (falsy_tagged ''user_pre'')) None = None"
    by (simp add: set_data_processor_None_iff truthy_def falsy_tagged_def)
  have e: "construct_then_predict_text example_table TXT_CLF example_model
       (Some (falsy_tagged ''user_pre'')) None Map.empty example_defaults (lit ''hi'')
     = construct_then_predict_text example_table TXT_CLF example_model
       None None Map.empty example_defaults (lit ''hi'')"
    by (simp add: construct_then_predict_text_def API_init_unfold s set_data_processor_simps)
  show ?thesis
    unfolding e predict_text_with_default [OF upper_tags(3)]
    by (simp add: s API_init_unfold set_data_processor_simps seq_def example_defaults_def
        example_model_def tagged_def tagged_body_def plain_function_def kwargs_get_def)
qed

section \<open>Case of the tag\<close>

text \<open>
  Claim C10.  The tag is case-insensitive: constructing a server, an API or calling the
  factory function with a string gives the same result as with its uppercase form, since
  the constructor stores the uppercased tag and nothing reads the tag as it was given.
  The stored tag, the resolved default, the registered route and the error message are
  therefore the same, and two tags with the same uppercase form construct the same API.
  This needs uppercasing an uppercased string to change nothing: it holds for every ASCII
  tag, whose uppercase form is the tag with its lowercase letters raised, and for every
  tag when the interpreter's table maps every code point outside ASCII to a string that
  uppercasing keeps.
\<close>

theorem api_type_case_insensitive:
  "((\<forall>c. 128 \<le> c \<longrightarrow> upper U (U c) = U c) \<or> is_ascii t \<longrightarrow>
      ModelServer_init U t m pre post kw = ModelServer_init U (upper U t) m pre post kw
      \<and> set_default_processor (ModelServer_init U t m pre post kw)
          = set_default_processor (ModelServer_init U (upper U t) m pre post kw)
      \<and> API_init U t m pre post kw D = API_init U (upper U t) m pre post kw D
      \<and> create_api U m t pre post r kw D started
          = create_api U m (upper U t) pre post r kw D started)
   \<and> api_type (ModelServer_init U t m pre post kw) = upper U t
   \<and> (is_ascii t \<longrightarrow> upper U t = map upper_ascii t)
   \<and> (upper U s = upper U t \<longrightarrow>
        ModelServer_init U s m pre post kw = ModelServer_init U t m pre post kw
        \<and> API_init U s m pre post kw D = API_init U t m pre post kw D
        \<and> create_api U m s pre post r kw D started
            = create_api U m t pre post r kw D started)"
proof -
  have same: "ModelServer_init U s m pre post kw = ModelServer_init U t m pre post kw
        \<and> API_init U s m pre post kw D = API_init U t m pre post kw D
        \<and> create_api U m s pre post r kw D started
            = create_api U m t pre post r kw D started"
    if "upper U s = upper U t" for s t
    using that by (simp add: ModelServer_init_def API_init_def create_api_def call_API_def)
  have idem: "upper U (upper U t) = upper U t"
    if "(\<forall>c. 128 \<le> c \<longrightarrow> upper U (U c) = U c) \<or> is_ascii t"
    using that upper_idem [of U t] upper_idem_ascii [of t U] by blast
  have a: "ModelServer_init U t m pre post kw = ModelServer_init U (upper U t) m pre post kw
      \<and> set_default_processor (ModelServer_init U t m pre post kw)
          = set_default_processor (ModelServer_init U (upper U t) m pre post kw)
      \<and> API_init U t m pre post kw D = API_init U (upper U t) m pre post kw D
      \<and> create_api U m t pre post r kw D started
          = create_api U m (upper U t) pre post r kw D started"
    if "(\<forall>c. 128 \<le> c \<longrightarrow> upper U (U c) = U c) \<or> is_ascii t"
    using same [of t "upper U t"] idem [OF that] by simp
  have b: "api_type (ModelServer_init U t m pre post kw) = upper U t"
    by (simp add: ModelServer_init_def)
  have c: "upper U t = map upper_ascii t" if "is_ascii t"
    using that by (rule upper_of_ascii)
  from a b c same [of s t] show ?thesis by blast
qed

theorem api_type_case_insensitive_witness:
  "upper example_table (example_table 223) = example_table 223
   \<and> upper example_table sharp_s_tag = TXT_CLF
   \<and> API_init example_table sharp_s_tag example_model None None example_kwargs example_defaults
     = API_init example_table TXT_CLF example_model None None example_kwargs example_defaults
   \<and> is_ascii (lit ''Image-Classification'')
   \<and> map upper_ascii (lit ''Image-Classification'') = IMAGE_CLF
   \<and> API_init example_table (lit ''Image-Classification'') example_model None None
       example_kwargs example_defaults
     = API_init example_table IMAGE_CLF example_model None None example_kwargs example_defaults
   \<and> (\<exists>api D'. API_init example_table (lit ''Image-Classification'') example_model None None
         example_kwargs example_defaults = Inr (api, D')
         \<and> api_type api = IMAGE_CLF
         \<and> routes (app api) = [POST_route (lit ''/api/predict-image'') Predict_image])"
proof -
  have cl: "\<forall>c. 128 \<le> c \<longrightarrow> upper example_table (example_table c) = example_table c"
    by (simp add: example_table_closed)
  have u: "upper example_table sharp_s_tag = TXT_CLF"
    "upper example_table (lit ''Image-Classification'') = IMAGE_CLF"
    by (rule upper_examples)+
  have asc: "is_ascii (lit ''Image-Classification'')"
    by (simp add: is_ascii_def lit_def)
  have v: "upper example_table (lit ''Image-Classification'') = IMAGE_CLF \<or>
           upper example_table (lit ''Image-Classification'') = OBJECT_DETECTION"
    by (simp add: u)
  have built: "\<exists>api D'. API_init example_table (lit ''Image-Classification'') example_model
         None None example_kwargs example_defaults = Inr (api, D')
         \<and> api_type api = IMAGE_CLF
         \<and> routes (app api) = [POST_route (lit ''/api/predict-image'') Predict_image]"
    by (simp add: API_init_vision [OF v] u routes_register_route register_route_def
        app_post_def new_FastAPI_def POST_route_def)
  show ?thesis
    using cl [rule_format, of 223] cl u asc built
      api_type_case_insensitive [of example_table sharp_s_tag example_model None None
        example_kwargs example_defaults False "[]" sharp_s_tag]
      api_type_case_insensitive [of example_table "lit ''Image-Classification''"
        example_model None None example_kwargs example_defaults False "[]"
        "lit ''Image-Classification''"]
    by (simp add: u)
qed

end
